theory Spec2Isabelle
  imports Complex_Main
begin

section \<open>Python values\<close>

text \<open>
  The bot is a Python program (\<^verbatim>\<open>src/main.py\<close>). Its integers are unbounded and are
  modelled by \<open>int\<close>. Its floats are modelled by \<open>pyfloat\<close>: a finite float is an exact
  real number (rounding and overflow of IEEE doubles are not modelled), and the three
  non-finite values are kept, since \<^verbatim>\<open>float("nan")\<close> and \<^verbatim>\<open>float("inf")\<close> parse and
  \<^verbatim>\<open>int()\<close> raises on them.
\<close>

datatype pyfloat = Finite real | PosInf | NegInf | NaN

datatype error =
  ValueError | TypeError | OverflowError | KeyError | AttributeError | IndexError

fun fneg :: "pyfloat \<Rightarrow> pyfloat" where
  "fneg (Finite a) = Finite (- a)"
| "fneg PosInf = NegInf"
| "fneg NegInf = PosInf"
| "fneg NaN = NaN"

fun fadd :: "pyfloat \<Rightarrow> pyfloat \<Rightarrow> pyfloat" where
  "fadd (Finite a) (Finite b) = Finite (a + b)"
| "fadd NaN _ = NaN"
| "fadd _ NaN = NaN"
| "fadd PosInf NegInf = NaN"
| "fadd NegInf PosInf = NaN"
| "fadd PosInf _ = PosInf"
| "fadd _ PosInf = PosInf"
| "fadd NegInf _ = NegInf"
| "fadd _ NegInf = NegInf"

definition fsub :: "pyfloat \<Rightarrow> pyfloat \<Rightarrow> pyfloat" where
  "fsub x y = fadd x (fneg y)"

fun fsign :: "pyfloat \<Rightarrow> int" where
  "fsign (Finite a) = (if 0 < a then 1 else if a < 0 then - 1 else 0)"
| "fsign PosInf = 1"
| "fsign NegInf = - 1"
| "fsign NaN = 0"

fun fmul :: "pyfloat \<Rightarrow> pyfloat \<Rightarrow> pyfloat" where
  "fmul (Finite a) (Finite b) = Finite (a * b)"
| "fmul NaN _ = NaN"
| "fmul _ NaN = NaN"
| "fmul x y =
     (if fsign x * fsign y = 0 then NaN
      else if 0 < fsign x * fsign y then PosInf else NegInf)"

text \<open>\<^verbatim>\<open>x > y\<close> on floats: every comparison with nan is false.\<close>

fun fgt :: "pyfloat \<Rightarrow> pyfloat \<Rightarrow> bool" where
  "fgt (Finite a) (Finite b) = (b < a)"
| "fgt NaN _ = False"
| "fgt _ NaN = False"
| "fgt PosInf y = (y \<noteq> PosInf)"
| "fgt NegInf _ = False"
| "fgt (Finite a) PosInf = False"
| "fgt (Finite a) NegInf = True"

text \<open>An \<^verbatim>\<open>int\<close> operand of a float operation is converted to a float.\<close>

definition float_of_int :: "int \<Rightarrow> pyfloat" where
  "float_of_int n = Finite (of_int n)"

text \<open>
  \<^verbatim>\<open>int(x)\<close> on a float truncates towards zero; it raises \<^verbatim>\<open>ValueError\<close> on nan and
  \<^verbatim>\<open>OverflowError\<close> on an infinity.
\<close>

definition py_trunc :: "real \<Rightarrow> int" where
  "py_trunc r = (if 0 \<le> r then \<lfloor>r\<rfloor> else \<lceil>r\<rceil>)"

fun int_of_float :: "pyfloat \<Rightarrow> error + int" where
  "int_of_float (Finite r) = Inr (py_trunc r)"
| "int_of_float NaN = Inl ValueError"
| "int_of_float PosInf = Inl OverflowError"
| "int_of_float NegInf = Inl OverflowError"

subsection \<open>Parsing numbers from text\<close>

text \<open>
  \<^verbatim>\<open>int(s)\<close> and \<^verbatim>\<open>float(s)\<close> on a string: surrounding whitespace is stripped, a
  sign may follow, then decimal digits, where single underscores may separate digits.
  \<^verbatim>\<open>float\<close> also reads a fraction, an exponent, and the words inf, infinity and nan in
  any letter case. A string is a list of bytes here, so only ASCII digits and ASCII
  whitespace are recognised. \<open>None\<close> stands for \<^verbatim>\<open>ValueError\<close>.
\<close>

definition is_space :: "char \<Rightarrow> bool" where
  "is_space c = (of_char c \<in> {9, 10, 11, 12, 13, 28, 29, 30, 31, 32 :: nat})"

definition is_digit :: "char \<Rightarrow> bool" where
  "is_digit c = (48 \<le> (of_char c :: nat) \<and> (of_char c :: nat) \<le> 57)"

definition digit_val :: "char \<Rightarrow> nat" where
  "digit_val c = of_char c - 48"

definition strip :: "string \<Rightarrow> string" where
  "strip s = rev (dropWhile is_space (rev (dropWhile is_space s)))"

fun split_sign :: "string \<Rightarrow> bool \<times> string" where
  "split_sign [] = (False, [])"
| "split_sign (c # cs) =
     (if c = CHR ''-'' then (True, cs)
      else if c = CHR ''+'' then (False, cs) else (False, c # cs))"

text \<open>The digits that continue a run of digits, and the text after the run.\<close>

fun more_digits :: "string \<Rightarrow> string \<times> string" where
  "more_digits [] = ([], [])"
| "more_digits [c] = (if is_digit c then ([c], []) else ([], [c]))"
| "more_digits (c # d # cs) =
     (if is_digit c then (case more_digits (d # cs) of (ds, r) \<Rightarrow> (c # ds, r))
      else if c = CHR ''_'' \<and> is_digit d then (case more_digits cs of (ds, r) \<Rightarrow> (d # ds, r))
      else ([], c # d # cs))"

definition digitpart :: "string \<Rightarrow> (string \<times> string) option" where
  "digitpart s =
     (case s of
        [] \<Rightarrow> None
      | c # cs \<Rightarrow>
          (if is_digit c then (case more_digits cs of (ds, r) \<Rightarrow> Some (c # ds, r))
           else None))"

definition opt_digitpart :: "string \<Rightarrow> string \<times> string" where
  "opt_digitpart s = (case digitpart s of Some p \<Rightarrow> p | None \<Rightarrow> ([], s))"

definition nat_of_digits :: "string \<Rightarrow> nat" where
  "nat_of_digits ds = foldl (\<lambda>n c. 10 * n + digit_val c) 0 ds"

definition signed :: "bool \<Rightarrow> nat \<Rightarrow> int" where
  "signed neg n = (if neg then - int n else int n)"

definition py_int :: "string \<Rightarrow> int option" where
  "py_int s =
     (case split_sign (strip s) of
        (neg, u) \<Rightarrow>
          (case digitpart u of
             Some (ds, []) \<Rightarrow> Some (signed neg (nat_of_digits ds))
           | _ \<Rightarrow> None))"

definition exponent :: "string \<Rightarrow> int option" where
  "exponent s =
     (case s of
        [] \<Rightarrow> Some 0
      | c # cs \<Rightarrow>
          (if c = CHR ''e'' \<or> c = CHR ''E'' then
             (case split_sign cs of
                (neg, u) \<Rightarrow>
                  (case digitpart u of
                     Some (ds, []) \<Rightarrow> Some (signed neg (nat_of_digits ds))
                   | _ \<Rightarrow> None))
           else None))"

definition scale10 :: "nat \<Rightarrow> int \<Rightarrow> real" where
  "scale10 m e = (if 0 \<le> e then of_nat m * 10 ^ nat e else of_nat m / 10 ^ nat (- e))"

definition decimal :: "string \<Rightarrow> real option" where
  "decimal s =
     (case opt_digitpart s of
        (ip, r1) \<Rightarrow>
          (case (case r1 of
                   [] \<Rightarrow> ([], r1)
                 | c # cs \<Rightarrow> (if c = CHR ''.'' then opt_digitpart cs else ([], r1))) of
             (fp, r2) \<Rightarrow>
               (if ip = [] \<and> fp = [] then None
                else (case exponent r2 of
                        None \<Rightarrow> None
                      | Some e \<Rightarrow> Some (scale10 (nat_of_digits (ip @ fp)) (e - int (length fp)))))))"

text \<open>Equality with a lower-case word, ignoring the letter case of the text.\<close>

fun ci_eq :: "string \<Rightarrow> string \<Rightarrow> bool" where
  "ci_eq [] [] = True"
| "ci_eq (c # cs) (p # ps) =
     ((c = p \<or> (of_char c :: nat) + 32 = of_char p) \<and> ci_eq cs ps)"
| "ci_eq _ _ = False"

definition py_float :: "string \<Rightarrow> pyfloat option" where
  "py_float s =
     (case split_sign (strip s) of
        (neg, u) \<Rightarrow>
          (if ci_eq u ''inf'' \<or> ci_eq u ''infinity'' then Some (if neg then NegInf else PosInf)
           else if ci_eq u ''nan'' then Some NaN
           else (case decimal u of
                   None \<Rightarrow> None
                 | Some r \<Rightarrow> Some (Finite (if neg then - r else r)))))"

text \<open>
  \<^verbatim>\<open>message.text\<close> is \<^verbatim>\<open>None\<close> for a message without text (a photo, a sticker);
  \<^verbatim>\<open>int(None)\<close> and \<^verbatim>\<open>float(None)\<close> raise \<^verbatim>\<open>TypeError\<close>.
\<close>

definition int_of_text :: "string option \<Rightarrow> error + int" where
  "int_of_text t =
     (case t of
        None \<Rightarrow> Inl TypeError
      | Some s \<Rightarrow> (case py_int s of None \<Rightarrow> Inl ValueError | Some n \<Rightarrow> Inr n))"

definition float_of_text :: "string option \<Rightarrow> error + pyfloat" where
  "float_of_text t =
     (case t of
        None \<Rightarrow> Inl TypeError
      | Some s \<Rightarrow> (case py_float s of None \<Rightarrow> Inl ValueError | Some x \<Rightarrow> Inr x))"

subsection \<open>Decoded JSON\<close>

text \<open>
  The values \<^verbatim>\<open>response.json()\<close> returns. A dictionary is an association list read
  with \<open>map_of\<close>; its keys are strings.
\<close>

datatype pyobj =
  PyNone
| PyBool bool
| PyInt int
| PyFloat pyfloat
| PyStr string
| PyList "pyobj list"
| PyDict "(string \<times> pyobj) list"

text \<open>Truth value of an object, as \<^verbatim>\<open>if x:\<close> and \<^verbatim>\<open>x or y\<close> test it.\<close>

fun truthy :: "pyobj \<Rightarrow> bool" where
  "truthy PyNone = False"
| "truthy (PyBool b) = b"
| "truthy (PyInt n) = (n \<noteq> 0)"
| "truthy (PyFloat x) = (x \<noteq> Finite 0)"
| "truthy (PyStr s) = (s \<noteq> [])"
| "truthy (PyList xs) = (xs \<noteq> [])"
| "truthy (PyDict kvs) = (kvs \<noteq> [])"

text \<open>\<^verbatim>\<open>obj[key]\<close> with a string key.\<close>

fun getitem :: "pyobj \<Rightarrow> string \<Rightarrow> error + pyobj" where
  "getitem (PyDict kvs) k = (case map_of kvs k of None \<Rightarrow> Inl KeyError | Some v \<Rightarrow> Inr v)"
| "getitem _ k = Inl TypeError"

text \<open>\<^verbatim>\<open>obj[0]\<close>.\<close>

fun getitem0 :: "pyobj \<Rightarrow> error + pyobj" where
  "getitem0 (PyList []) = Inl IndexError"
| "getitem0 (PyList (x # xs)) = Inr x"
| "getitem0 (PyStr []) = Inl IndexError"
| "getitem0 (PyStr (c # cs)) = Inr (PyStr [c])"
| "getitem0 (PyDict kvs) = Inl KeyError"
| "getitem0 _ = Inl TypeError"

text \<open>\<^verbatim>\<open>obj.get(key, default)\<close>: only a dictionary has the method.\<close>

fun dict_get :: "pyobj \<Rightarrow> string \<Rightarrow> pyobj \<Rightarrow> error + pyobj" where
  "dict_get (PyDict kvs) k dflt = Inr (case map_of kvs k of None \<Rightarrow> dflt | Some v \<Rightarrow> v)"
| "dict_get _ k dflt = Inl AttributeError"

text \<open>The float an object stands for in arithmetic and comparisons, if it is a number.\<close>

fun as_float :: "pyobj \<Rightarrow> pyfloat option" where
  "as_float (PyBool b) = Some (Finite (if b then 1 else 0))"
| "as_float (PyInt n) = Some (float_of_int n)"
| "as_float (PyFloat x) = Some x"
| "as_float _ = None"

text \<open>\<^verbatim>\<open>x / 100\<close> on a float.\<close>

fun fdiv100 :: "pyfloat \<Rightarrow> pyfloat" where
  "fdiv100 (Finite a) = Finite (a / 100)"
| "fdiv100 x = x"

section \<open>GoalCalculator\<close>

text \<open>
  \<^verbatim>\<open>
  def calculate_water_goal(weight: float, activity_minutes: int, temperature: float = 20.0) -> int:
      base = weight * 30
      extra_for_activity = (activity_minutes // 30) * 500
      extra_for_heat = 500 if temperature > 25 else 0
      return int(base + extra_for_activity + extra_for_heat)
  \<close>
  Python's \<^verbatim>\<open>//\<close> on integers rounds towards minus infinity, as \<open>div\<close> on \<open>int\<close> does.
\<close>

definition calculate_water_goal :: "pyfloat \<Rightarrow> int \<Rightarrow> pyfloat \<Rightarrow> error + int" where
  "calculate_water_goal weight activity_minutes temperature =
     (let base = fmul weight (Finite 30);
          extra_for_activity = (activity_minutes div 30) * 500;
          extra_for_heat = (if fgt temperature (Finite 25) then 500 else 0)
      in int_of_float
           (fadd (fadd base (float_of_int extra_for_activity)) (float_of_int extra_for_heat)))"

text \<open>
  \<^verbatim>\<open>
  def calculate_calorie_goal(weight: float, height: float, age: int, activity_minutes: int) -> int:
      bmr = (10 * weight) + (6.25 * height) - (5 * age)
      extra_activity = 400 if activity_minutes > 60 else (200 if activity_minutes > 30 else 0)
      return int(bmr + extra_activity)
  \<close>
\<close>

definition calculate_calorie_goal :: "pyfloat \<Rightarrow> pyfloat \<Rightarrow> int \<Rightarrow> int \<Rightarrow> error + int" where
  "calculate_calorie_goal weight height age activity_minutes =
     (let bmr = fsub (fadd (fmul (Finite 10) weight) (fmul (Finite 6.25) height))
                     (float_of_int (5 * age));
          extra_activity =
            (if activity_minutes > 60 then 400 else (if activity_minutes > 30 then 200 else 0))
      in int_of_float (fadd bmr (float_of_int extra_activity)))"

section \<open>ClimateGateway and NutritionGateway\<close>

text \<open>
  What an HTTP GET does: the transport raises, or a response arrives with a status and a
  body; the body is \<open>None\<close> when \<^verbatim>\<open>response.json()\<close> raises on it. The network of one
  turn maps the requested URL to what happens.
\<close>

datatype http_result = Transport_error | Response int "pyobj option"

type_synonym network = "string \<Rightarrow> http_result"

definition OPENWEATHER_API_KEY :: string where
  "OPENWEATHER_API_KEY = ''nope''"

text \<open>A value formatted into an f-string: \<^verbatim>\<open>None\<close> prints as \<^verbatim>\<open>None\<close>.\<close>

definition fmt_text :: "string option \<Rightarrow> string" where
  "fmt_text t = (case t of None \<Rightarrow> ''None'' | Some s \<Rightarrow> s)"

text \<open>
  \<^verbatim>\<open>
  async def get_weather_temp(city: str) -> float:
      url = f"http://api.openweathermap.org/data/2.5/weather?q={city}&appid={OPENWEATHER_API_KEY}&units=metric"
      try:
          async with aiohttp.ClientSession() as session:
              async with session.get(url) as response:
                  if response.status != 200:
                      return None
                  data = await response.json()
                  return data["main"]["temp"]
      except Exception as e:
          return None
  \<close>
\<close>

definition weather_url :: "string option \<Rightarrow> string" where
  "weather_url city =
     ''http://api.openweathermap.org/data/2.5/weather?q='' @ fmt_text city @ ''&appid=''
       @ OPENWEATHER_API_KEY @ ''&units=metric''"

definition get_weather_temp :: "network \<Rightarrow> string option \<Rightarrow> pyobj" where
  "get_weather_temp net city =
     (case net (weather_url city) of
        Transport_error \<Rightarrow> PyNone
      | Response status body \<Rightarrow>
          (if status \<noteq> 200 then PyNone
           else (case body of
                   None \<Rightarrow> PyNone
                 | Some data \<Rightarrow>
                     (case getitem data ''main'' of
                        Inl e \<Rightarrow> PyNone
                      | Inr m \<Rightarrow> (case getitem m ''temp'' of Inl e \<Rightarrow> PyNone | Inr t \<Rightarrow> t)))))"

text \<open>
  \<^verbatim>\<open>
  async def get_food_info(product_name: str):
      url = f"https://world.openfoodfacts.org/cgi/search.pl?action=process&search_terms={product_name}&json=true"
      try:
          async with aiohttp.ClientSession() as session:
              async with session.get(url) as response:
                  if response.status != 200:
                      return None
                  data = await response.json()
                  products = data.get('products', [])
                  if products:
                      first_product = products[0]
                      return {
                          'name': first_product.get('product_name', 'Unknown'),
                          'calories': first_product.get('nutriments', {}).get('energy-kcal_100g', 0)
                      }
                  return None
      except Exception as e:
          return None
  \<close>
  \<open>read_products\<close> is the part of the \<^verbatim>\<open>try\<close> block that reads the decoded body, with the
  exception it raises as a value; \<open>get_food_info\<close> turns every exception into \<^verbatim>\<open>None\<close>.
\<close>

record food_info =
  name :: pyobj
  calories :: pyobj

definition food_url :: "string option \<Rightarrow> string" where
  "food_url product_name =
     ''https://world.openfoodfacts.org/cgi/search.pl?action=process&search_terms=''
       @ fmt_text product_name @ ''&json=true''"

definition read_products :: "pyobj \<Rightarrow> error + food_info option" where
  "read_products data =
     (case dict_get data ''products'' (PyList []) of
        Inl e \<Rightarrow> Inl e
      | Inr products \<Rightarrow>
          (if truthy products then
             (case getitem0 products of
                Inl e \<Rightarrow> Inl e
              | Inr first_product \<Rightarrow>
                  (case dict_get first_product ''product_name'' (PyStr ''Unknown'') of
                     Inl e \<Rightarrow> Inl e
                   | Inr nm \<Rightarrow>
                       (case dict_get first_product ''nutriments'' (PyDict []) of
                          Inl e \<Rightarrow> Inl e
                        | Inr nutriments \<Rightarrow>
                            (case dict_get nutriments ''energy-kcal_100g'' (PyInt 0) of
                               Inl e \<Rightarrow> Inl e
                             | Inr kcal \<Rightarrow> Inr (Some \<lparr>name = nm, calories = kcal\<rparr>)))))
           else Inr None))"

definition get_food_info :: "network \<Rightarrow> string option \<Rightarrow> food_info option" where
  "get_food_info net product_name =
     (case net (food_url product_name) of
        Transport_error \<Rightarrow> None
      | Response status body \<Rightarrow>
          (if status \<noteq> 200 then None
           else (case body of
                   None \<Rightarrow> None
                 | Some data \<Rightarrow> (case read_products data of Inl e \<Rightarrow> None | Inr r \<Rightarrow> r))))"

section \<open>ProfileStore and conversation state\<close>

text \<open>
  \<^verbatim>\<open>user_profiles\<close> maps a user id to the dictionary \<^verbatim>\<open>process_city\<close> builds; the
  record has one field for each of its keys. \<^verbatim>\<open>city\<close> is \<^verbatim>\<open>message.text\<close> as it came,
  \<^verbatim>\<open>temperature\<close> the object the weather lookup gave or the default. The counters
  start at the integer 0, held here as the float of the same value.
\<close>

record profile =
  weight :: pyfloat
  height :: pyfloat
  age :: int
  activity :: int
  city :: "string option"
  temperature :: pyobj
  water_goal :: int
  calorie_goal :: int
  logged_water :: int
  logged_calories :: pyfloat
  burned_calories :: pyfloat

text \<open>
  The states of the four \<^verbatim>\<open>StatesGroup\<close> classes; no state (\<open>None\<close>) is the idle
  conversation. The FSM data of a conversation holds the keys the handlers write with
  \<^verbatim>\<open>update_data\<close>; a key that was not written is \<open>None\<close>, which is what
  \<^verbatim>\<open>data.get(key)\<close> returns for it.
\<close>

datatype fsm_state =
  ProfileStates_weight
| ProfileStates_height
| ProfileStates_age
| ProfileStates_activity
| ProfileStates_city
| LogWaterStates_amount
| LogFoodStates_food_name
| LogFoodStates_food_amount
| FoodInfoStates_food_name

record fsm_data =
  d_weight :: "pyfloat option"
  d_height :: "pyfloat option"
  d_age :: "int option"
  d_activity :: "int option"
  d_current_food :: "food_info option"

record fsm_context =
  state :: "fsm_state option"
  data :: fsm_data

definition no_data :: fsm_data where
  "no_data = \<lparr>d_weight = None, d_height = None, d_age = None, d_activity = None,
              d_current_food = None\<rparr>"

text \<open>
  The whole bot: the profile store and the memory storage of the dispatcher, one FSM
  context for each user (a private chat: the chat and the user are the same key).
\<close>

record world =
  user_profiles :: "int \<rightharpoonup> profile"
  storage :: "int \<Rightarrow> fsm_context"

definition initial :: world where
  "initial = \<lparr>user_profiles = Map.empty, storage = (\<lambda>u. \<lparr>state = None, data = no_data\<rparr>)\<rparr>"

text \<open>\<^verbatim>\<open>state.clear()\<close>, \<^verbatim>\<open>state.set_state(s)\<close>, \<^verbatim>\<open>state.update_data(...)\<close>, \<^verbatim>\<open>state.get_data()\<close>.\<close>

definition state_clear :: "int \<Rightarrow> world \<Rightarrow> world" where
  "state_clear u w = w\<lparr>storage := (storage w)(u := \<lparr>state = None, data = no_data\<rparr>)\<rparr>"

definition set_state :: "int \<Rightarrow> fsm_state \<Rightarrow> world \<Rightarrow> world" where
  "set_state u s w = w\<lparr>storage := (storage w)(u := (storage w u)\<lparr>state := Some s\<rparr>)\<rparr>"

definition update_data :: "int \<Rightarrow> (fsm_data \<Rightarrow> fsm_data) \<Rightarrow> world \<Rightarrow> world" where
  "update_data u f w = w\<lparr>storage := (storage w)(u := (storage w u)\<lparr>data := f (data (storage w u))\<rparr>)\<rparr>"

definition get_data :: "int \<Rightarrow> world \<Rightarrow> fsm_data" where
  "get_data u w = data (storage w u)"

definition get_state :: "int \<Rightarrow> world \<Rightarrow> fsm_state option" where
  "get_state u w = state (storage w u)"

section \<open>Replies\<close>

text \<open>
  One constructor for each text a handler sends, with the values its f-string formats;
  the keyboard sent along is the second component of a reply.
\<close>

datatype markup = ReplyKeyboardMarkup "string list list" | ReplyKeyboardRemove | No_markup

definition get_main_menu :: markup where
  "get_main_menu =
     ReplyKeyboardMarkup
       (map (\<lambda>button. [button])
          [''Set Profile'', ''Log Water'', ''Log Food'', ''Check Food Info'', ''Check Progress''])"

datatype reply_text =
  Welcome
| Enter_weight
| Enter_height
| Invalid_weight
| Enter_age
| Invalid_height
| Ask_activity
| Invalid_age
| Ask_city
| Invalid_activity
| Profile_set pyfloat pyfloat int int "string option" pyobj int int
| Set_profile_first_button
| Ask_water_amount
| Set_profile_first
| Water_goal_reached int
| Logged_water int int
| Invalid_number_250
| Ask_food_to_log
| Food_found pyobj pyobj
| Food_not_found
| Something_went_wrong
| Logged_food pyobj int pyfloat pyfloat
| Invalid_number_150
| Progress int int pyfloat int pyfloat
| Ask_food_to_check
| Product_info pyobj pyobj
| Product_not_found
| Did_not_understand

type_synonym reply = "reply_text \<times> markup"

text \<open>
  An incoming message: the sender's id and \<^verbatim>\<open>message.text\<close>, which is \<open>None\<close> for a
  message without text.
\<close>

record message =
  from_user :: int
  msg_text :: "string option"

section \<open>Handlers\<close>

text \<open>
  A handler takes the message and the bot's state and returns the new state and the
  reply it sends, or the exception that leaves it. In every handler below the raising
  steps come before the first write, so a handler that raises has changed nothing.
\<close>

type_synonym outcome = "error + world \<times> reply"

definition cmd_start :: "message \<Rightarrow> world \<Rightarrow> outcome" where
  "cmd_start m w = Inr (w, (Welcome, get_main_menu))"

text \<open>
  \<^verbatim>\<open>
  async def cmd_set_profile(message, state):
      await state.clear()  # Clear any previous conversation state
      await state.set_state(ProfileStates.weight)
      await message.answer("Enter your weight (kg):", reply_markup=ReplyKeyboardRemove())
  \<close>
\<close>

definition cmd_set_profile :: "message \<Rightarrow> world \<Rightarrow> outcome" where
  "cmd_set_profile m w =
     Inr (set_state (from_user m) ProfileStates_weight (state_clear (from_user m) w),
          (Enter_weight, ReplyKeyboardRemove))"

text \<open>
  \<^verbatim>\<open>
  async def process_weight(message, state):
      try:
          weight = float(message.text)
          await state.update_data(weight=weight)
          await state.set_state(ProfileStates.height)
          await message.answer("Enter your height (cm):")
      except ValueError:
          await message.answer("Please enter a valid weight in kg (e.g., 70).")
  \<close>
  \<^verbatim>\<open>process_height\<close>, \<^verbatim>\<open>process_age\<close> and \<^verbatim>\<open>process_activity\<close> have the same shape.
\<close>

definition process_weight :: "message \<Rightarrow> world \<Rightarrow> outcome" where
  "process_weight m w =
     (case float_of_text (msg_text m) of
        Inr weight' \<Rightarrow>
          Inr (set_state (from_user m) ProfileStates_height
                 (update_data (from_user m) (\<lambda>d. d\<lparr>d_weight := Some weight'\<rparr>) w),
               (Enter_height, No_markup))
      | Inl e \<Rightarrow> (if e = ValueError then Inr (w, (Invalid_weight, No_markup)) else Inl e))"

definition process_height :: "message \<Rightarrow> world \<Rightarrow> outcome" where
  "process_height m w =
     (case float_of_text (msg_text m) of
        Inr height' \<Rightarrow>
          Inr (set_state (from_user m) ProfileStates_age
                 (update_data (from_user m) (\<lambda>d. d\<lparr>d_height := Some height'\<rparr>) w),
               (Enter_age, No_markup))
      | Inl e \<Rightarrow> (if e = ValueError then Inr (w, (Invalid_height, No_markup)) else Inl e))"

definition process_age :: "message \<Rightarrow> world \<Rightarrow> outcome" where
  "process_age m w =
     (case int_of_text (msg_text m) of
        Inr age' \<Rightarrow>
          Inr (set_state (from_user m) ProfileStates_activity
                 (update_data (from_user m) (\<lambda>d. d\<lparr>d_age := Some age'\<rparr>) w),
               (Ask_activity, No_markup))
      | Inl e \<Rightarrow> (if e = ValueError then Inr (w, (Invalid_age, No_markup)) else Inl e))"

definition process_activity :: "message \<Rightarrow> world \<Rightarrow> outcome" where
  "process_activity m w =
     (case int_of_text (msg_text m) of
        Inr activity' \<Rightarrow>
          Inr (set_state (from_user m) ProfileStates_city
                 (update_data (from_user m) (\<lambda>d. d\<lparr>d_activity := Some activity'\<rparr>) w),
               (Ask_city, No_markup))
      | Inl e \<Rightarrow> (if e = ValueError then Inr (w, (Invalid_activity, No_markup)) else Inl e))"

text \<open>
  \<^verbatim>\<open>
  async def process_city(message, state):
      city = message.text
      data = await state.get_data()
      weight = data.get("weight")
      height = data.get("height")
      age = data.get("age")
      activity = data.get("activity")
      temp = await get_weather_temp(city) or 20.0
      water_goal = calculate_water_goal(weight, activity, temp)
      calorie_goal = calculate_calorie_goal(weight, height, age, activity)
      user_profiles[message.from_user.id] = {
          "weight": weight, "height": height, "age": age, "activity": activity,
          "city": city, "temperature": temp,
          "water_goal": water_goal, "calorie_goal": calorie_goal,
          "logged_water": 0, "logged_calories": 0, "burned_calories": 0,
      }
      await state.clear()
      await message.answer(f"Profile set! ...", reply_markup=get_main_menu())
  \<close>
  \<open>x or 20.0\<close> is \<open>x\<close> when \<open>x\<close> is truthy and \<open>20.0\<close> otherwise. Arithmetic on a
  missing field (\<^verbatim>\<open>None\<close>) and the comparison \<^verbatim>\<open>temperature > 25\<close> on an object that is
  not a number raise \<^verbatim>\<open>TypeError\<close>.
\<close>

definition or_default :: "pyobj \<Rightarrow> pyobj \<Rightarrow> pyobj" where
  "or_default x dflt = (if truthy x then x else dflt)"

definition process_city :: "network \<Rightarrow> message \<Rightarrow> world \<Rightarrow> outcome" where
  "process_city net m w =
     (let city' = msg_text m;
          d = get_data (from_user m) w;
          temp = or_default (get_weather_temp net city') (PyFloat (Finite 20))
      in case (d_weight d, d_height d, d_age d, d_activity d, as_float temp) of
           (Some weight', Some height', Some age', Some activity', Some t) \<Rightarrow>
             (case calculate_water_goal weight' activity' t of
                Inl e \<Rightarrow> Inl e
              | Inr water_goal' \<Rightarrow>
                  (case calculate_calorie_goal weight' height' age' activity' of
                     Inl e \<Rightarrow> Inl e
                   | Inr calorie_goal' \<Rightarrow>
                       Inr (state_clear (from_user m)
                              (w\<lparr>user_profiles := (user_profiles w)(from_user m \<mapsto>
                                   \<lparr>weight = weight', height = height', age = age',
                                    activity = activity', city = city', temperature = temp,
                                    water_goal = water_goal', calorie_goal = calorie_goal',
                                    logged_water = 0, logged_calories = Finite 0,
                                    burned_calories = Finite 0\<rparr>)\<rparr>),
                            (Profile_set weight' height' age' activity' city' temp water_goal'
                               calorie_goal', get_main_menu))))
         | _ \<Rightarrow> Inl TypeError)"

text \<open>
  \<^verbatim>\<open>
  async def cmd_log_water(message, state):
      user_profile = user_profiles.get(message.from_user.id)
      if not user_profile:
          await message.answer("Please set your profile first using the 'Set Profile' button.", reply_markup=get_main_menu())
          return
      await state.set_state(LogWaterStates.amount)
      await message.answer("How many milliliters of water did you drink?", reply_markup=ReplyKeyboardRemove())
  \<close>
  A stored profile is a dictionary with eleven keys, so it is truthy: \<^verbatim>\<open>not user_profile\<close>
  holds exactly when the user has none.
\<close>

definition cmd_log_water :: "message \<Rightarrow> world \<Rightarrow> outcome" where
  "cmd_log_water m w =
     (case user_profiles w (from_user m) of
        None \<Rightarrow> Inr (w, (Set_profile_first_button, get_main_menu))
      | Some user_profile \<Rightarrow>
          Inr (set_state (from_user m) LogWaterStates_amount w,
               (Ask_water_amount, ReplyKeyboardRemove)))"

text \<open>
  \<^verbatim>\<open>
  async def process_log_water(message, state):
      user_id = message.from_user.id
      user_profile = user_profiles.get(user_id)
      if not user_profile:
          await state.clear()
          await message.answer("Please set your profile first.", reply_markup=get_main_menu())
          return
      try:
          amount = int(message.text)
          user_profile["logged_water"] += amount
          current = user_profile["logged_water"]
          goal = user_profile["water_goal"]
          remaining = max(goal - current, 0)
          await state.clear()
          if remaining <= 0:
              await message.answer(f"Great! You've reached your water goal: {current} ml.", reply_markup=get_main_menu())
          else:
              await message.answer(f"Logged: {amount} ml. Remaining: {remaining} ml.", reply_markup=get_main_menu())
      except ValueError:
          await message.answer("Please enter a valid number (e.g., 250).")
  \<close>
\<close>

definition process_log_water :: "message \<Rightarrow> world \<Rightarrow> outcome" where
  "process_log_water m w =
     (let user_id = from_user m
      in case user_profiles w user_id of
           None \<Rightarrow> Inr (state_clear user_id w, (Set_profile_first, get_main_menu))
         | Some user_profile \<Rightarrow>
             (case int_of_text (msg_text m) of
                Inr amount \<Rightarrow>
                  (let user_profile' =
                         user_profile\<lparr>logged_water := logged_water user_profile + amount\<rparr>;
                       current = logged_water user_profile';
                       goal = water_goal user_profile';
                       remaining = max (goal - current) 0;
                       w' = state_clear user_id
                              (w\<lparr>user_profiles := (user_profiles w)(user_id \<mapsto> user_profile')\<rparr>)
                   in if remaining \<le> 0
                      then Inr (w', (Water_goal_reached current, get_main_menu))
                      else Inr (w', (Logged_water amount remaining, get_main_menu)))
              | Inl e \<Rightarrow>
                  (if e = ValueError then Inr (w, (Invalid_number_250, No_markup)) else Inl e)))"

definition cmd_log_food :: "message \<Rightarrow> world \<Rightarrow> outcome" where
  "cmd_log_food m w =
     (case user_profiles w (from_user m) of
        None \<Rightarrow> Inr (w, (Set_profile_first_button, get_main_menu))
      | Some user_profile \<Rightarrow>
          Inr (set_state (from_user m) LogFoodStates_food_name w,
               (Ask_food_to_log, ReplyKeyboardRemove)))"

text \<open>
  \<^verbatim>\<open>
  async def process_log_food_name(message, state):
      food_info = await get_food_info(message.text)
      if food_info:
          await state.update_data(current_food=food_info)
          await state.set_state(LogFoodStates.food_amount)
          await message.answer(f"Found: {food_info['name']}\n" ...)
      else:
          await message.answer("Could not find information about this food. Try another name.")
  \<close>
\<close>

definition process_log_food_name :: "network \<Rightarrow> message \<Rightarrow> world \<Rightarrow> outcome" where
  "process_log_food_name net m w =
     (case get_food_info net (msg_text m) of
        Some food_info \<Rightarrow>
          Inr (set_state (from_user m) LogFoodStates_food_amount
                 (update_data (from_user m) (\<lambda>d. d\<lparr>d_current_food := Some food_info\<rparr>) w),
               (Food_found (name food_info) (calories food_info), No_markup))
      | None \<Rightarrow> Inr (w, (Food_not_found, No_markup)))"

text \<open>
  \<^verbatim>\<open>
  async def process_log_food_amount(message, state):
      try:
          amount = int(message.text)
          data = await state.get_data()
          food_info = data.get("current_food")
          if not food_info:
              await state.clear()
              await message.answer("Something went wrong. Please try again.", reply_markup=get_main_menu())
              return
          calories_per_100g = food_info["calories"]
          total_calories = (calories_per_100g / 100) * amount
          user_profiles[message.from_user.id]["logged_calories"] += total_calories
          await state.clear()
          await message.answer(f"Logged: {food_info['name']} ({amount}g)\n" ...)
      except ValueError:
          await message.answer("Please enter a valid number (e.g., 150).")
  \<close>
  Dividing an object that is not a number raises \<^verbatim>\<open>TypeError\<close>, and indexing
  \<^verbatim>\<open>user_profiles\<close> at a user without a profile raises \<^verbatim>\<open>KeyError\<close>; neither is caught.
\<close>

definition process_log_food_amount :: "message \<Rightarrow> world \<Rightarrow> outcome" where
  "process_log_food_amount m w =
     (case int_of_text (msg_text m) of
        Inl e \<Rightarrow> (if e = ValueError then Inr (w, (Invalid_number_150, No_markup)) else Inl e)
      | Inr amount \<Rightarrow>
          (case d_current_food (get_data (from_user m) w) of
             None \<Rightarrow> Inr (state_clear (from_user m) w, (Something_went_wrong, get_main_menu))
           | Some food_info \<Rightarrow>
               (case as_float (calories food_info) of
                  None \<Rightarrow> Inl TypeError
                | Some calories_per_100g \<Rightarrow>
                    (let total_calories = fmul (fdiv100 calories_per_100g) (float_of_int amount)
                     in case user_profiles w (from_user m) of
                          None \<Rightarrow> Inl KeyError
                        | Some p \<Rightarrow>
                            (let p' = p\<lparr>logged_calories := fadd (logged_calories p) total_calories\<rparr>
                             in Inr (state_clear (from_user m)
                                       (w\<lparr>user_profiles := (user_profiles w)(from_user m \<mapsto> p')\<rparr>),
                                     (Logged_food (name food_info) amount total_calories
                                        (logged_calories p'), get_main_menu)))))))"

definition cmd_check_progress :: "message \<Rightarrow> world \<Rightarrow> outcome" where
  "cmd_check_progress m w =
     (case user_profiles w (from_user m) of
        None \<Rightarrow> Inr (w, (Set_profile_first_button, get_main_menu))
      | Some user_profile \<Rightarrow>
          Inr (w, (Progress (logged_water user_profile) (water_goal user_profile)
                     (logged_calories user_profile) (calorie_goal user_profile)
                     (burned_calories user_profile), get_main_menu)))"

definition cmd_check_food_info :: "message \<Rightarrow> world \<Rightarrow> outcome" where
  "cmd_check_food_info m w =
     Inr (set_state (from_user m) FoodInfoStates_food_name w,
          (Ask_food_to_check, ReplyKeyboardRemove))"

definition process_food_info :: "network \<Rightarrow> message \<Rightarrow> world \<Rightarrow> outcome" where
  "process_food_info net m w =
     (case get_food_info net (msg_text m) of
        Some food_info \<Rightarrow>
          Inr (state_clear (from_user m) w,
               (Product_info (name food_info) (calories food_info), get_main_menu))
      | None \<Rightarrow> Inr (state_clear (from_user m) w, (Product_not_found, get_main_menu)))"

definition fallback_handler :: "message \<Rightarrow> world \<Rightarrow> outcome" where
  "fallback_handler m w = Inr (w, (Did_not_understand, get_main_menu))"

section \<open>DialogueController\<close>

text \<open>
  The dispatcher gives a message to the first handler, in the order the handlers are
  registered with \<^verbatim>\<open>@dp.message(...)\<close> in the source, whose filter accepts it: a text
  filter \<^verbatim>\<open>F.text == "..."\<close> compares the text, a state filter compares the user's FSM
  state, and \<^verbatim>\<open>Command("start")\<close> accepts a text whose first word is \<^verbatim>\<open>/start\<close>.
\<close>

definition is_start_command :: "string option \<Rightarrow> bool" where
  "is_start_command t =
     (case t of
        None \<Rightarrow> False
      | Some s \<Rightarrow> takeWhile (\<lambda>c. \<not> is_space c) (dropWhile is_space s) = ''/start'')"

definition dispatch :: "network \<Rightarrow> message \<Rightarrow> world \<Rightarrow> outcome" where
  "dispatch net m w =
     (let t = msg_text m; st = get_state (from_user m) w
      in if is_start_command t then cmd_start m w
         else if t = Some ''Set Profile'' then cmd_set_profile m w
         else if st = Some ProfileStates_weight then process_weight m w
         else if st = Some ProfileStates_height then process_height m w
         else if st = Some ProfileStates_age then process_age m w
         else if st = Some ProfileStates_activity then process_activity m w
         else if st = Some ProfileStates_city then process_city net m w
         else if t = Some ''Log Water'' then cmd_log_water m w
         else if st = Some LogWaterStates_amount then process_log_water m w
         else if t = Some ''Log Food'' then cmd_log_food m w
         else if st = Some LogFoodStates_food_name then process_log_food_name net m w
         else if st = Some LogFoodStates_food_amount then process_log_food_amount m w
         else if t = Some ''Check Progress'' then cmd_check_progress m w
         else if t = Some ''Check Food Info'' then cmd_check_food_info m w
         else if st = Some FoodInfoStates_food_name then process_food_info net m w
         else fallback_handler m w)"

text \<open>
  One turn: the message is handled to completion; an exception that leaves the handler
  is logged by the dispatcher and the state stays as it was. A run handles the turns of
  a list one after the other, each with the network of its moment.
\<close>

definition step :: "world \<Rightarrow> network \<times> message \<Rightarrow> world" where
  "step w ev = (case dispatch (fst ev) (snd ev) w of Inl e \<Rightarrow> w | Inr (w', r) \<Rightarrow> w')"

definition reply_to :: "world \<Rightarrow> network \<times> message \<Rightarrow> reply option" where
  "reply_to w ev = (case dispatch (fst ev) (snd ev) w of Inl e \<Rightarrow> None | Inr (w', r) \<Rightarrow> Some r)"

definition run :: "world \<Rightarrow> (network \<times> message) list \<Rightarrow> world" where
  "run w evs = foldl step w evs"

section \<open>Non-negative logs\<close>

text \<open>
  The invariant on the profile store: the logged water of every profile is at least 0
  and its logged calories are a finite float that is at least 0.
\<close>

fun nonneg :: "pyfloat \<Rightarrow> bool" where
  "nonneg (Finite r) = (0 \<le> r)"
| "nonneg _ = False"

definition store_nonneg :: "world \<Rightarrow> bool" where
  "store_nonneg w =
     (\<forall>u p. user_profiles w u = Some p \<longrightarrow> 0 \<le> logged_water p \<and> nonneg (logged_calories p))"

text \<open>
  A turn is benign when the integer it enters in the water-amount or the food-amount
  step, if its text is one, is at least 0, and when the calories per 100 g that the
  lookup of the food-name step returns, if they are a number, are finite and at least
  0. A run is benign when each of its turns is, in the state the turn meets.
\<close>

definition kcal_ok :: "food_info \<Rightarrow> bool" where
  "kcal_ok fi = (case as_float (calories fi) of None \<Rightarrow> True | Some x \<Rightarrow> nonneg x)"

definition benign :: "world \<Rightarrow> network \<times> message \<Rightarrow> bool" where
  "benign w ev =
     (let m = snd ev; st = get_state (from_user m) w
      in (if st = Some LogWaterStates_amount \<or> st = Some LogFoodStates_food_amount
          then (case int_of_text (msg_text m) of Inl e \<Rightarrow> True | Inr n \<Rightarrow> 0 \<le> n)
          else if st = Some LogFoodStates_food_name
          then (case get_food_info (fst ev) (msg_text m) of None \<Rightarrow> True | Some fi \<Rightarrow> kcal_ok fi)
          else True))"

fun benign_run :: "world \<Rightarrow> (network \<times> message) list \<Rightarrow> bool" where
  "benign_run w [] = True"
| "benign_run w (ev # evs) = (benign w ev \<and> benign_run (step w ev) evs)"

text \<open>The food kept in the data of every conversation has acceptable calories.\<close>

definition data_ok :: "world \<Rightarrow> bool" where
  "data_ok w = (\<forall>u fi. d_current_food (data (storage w u)) = Some fi \<longrightarrow> kcal_ok fi)"

definition logs_ok :: "world \<Rightarrow> bool" where
  "logs_ok w = (store_nonneg w \<and> data_ok w)"

section \<open>Sample turns\<close>

text \<open>
  Concrete turns for the examples below: a network on which every request fails, a
  network that answers every request with status 200 and a given decoded body, and a
  text message of a user sent while a given network is in place.
\<close>

definition offline :: network where
  "offline = (\<lambda>url. Transport_error)"

definition serving :: "pyobj \<Rightarrow> network" where
  "serving body = (\<lambda>url. Response 200 (Some body))"

definition turn :: "network \<Rightarrow> int \<Rightarrow> string \<Rightarrow> network \<times> message" where
  "turn net u s = (net, \<lparr>from_user = u, msg_text = Some s\<rparr>)"

definition say :: "int \<Rightarrow> string \<Rightarrow> network \<times> message" where
  "say u s = turn offline u s"

section \<open>Properties of the goal calculator\<close>






text \<open>
  Claim C3, as stated, fails: 45 minutes of activity hold one full half hour, which
  adds 500, so the goal for 70 kg, 45 minutes and 30 degrees is not 2600.
\<close>

theorem water_goal_70_45_30_counterexample:
  "calculate_water_goal (Finite 70) 45 (Finite 30) \<noteq> Inr 2600"
  by (simp add: calculate_water_goal_def float_of_int_def py_trunc_def)

text \<open>
  Claim C3, amended. The water goal for 70 kg, 45 minutes and 30 degrees is
  2100 + 500 + 500 = 3100.
\<close>

theorem water_goal_70_45_30:
  "calculate_water_goal (Finite 70) 45 (Finite 30) = Inr 3100"
  by (simp add: calculate_water_goal_def float_of_int_def py_trunc_def)

section \<open>Properties of the conversation\<close>

subsection \<open>Reading the state after a state operation\<close>

lemma get_state_simps:
  "get_state u (state_clear u w) = None"
  "get_state u (set_state u s w) = Some s"
  "get_state u (update_data u f w) = get_state u w"
  by (simp_all add: get_state_def state_clear_def set_state_def update_data_def)

lemma get_data_simps:
  "get_data u (state_clear u w) = no_data"
  "get_data u (set_state u s w) = get_data u w"
  "get_data u (update_data u f w) = f (get_data u w)"
  by (simp_all add: get_data_def state_clear_def set_state_def update_data_def)

lemma user_profiles_simps:
  "user_profiles (state_clear u w) = user_profiles w"
  "user_profiles (set_state u s w) = user_profiles w"
  "user_profiles (update_data u f w) = user_profiles w"
  by (simp_all add: state_clear_def set_state_def update_data_def)

lemma not_start_command:
  "\<not> is_start_command (Some ''Set Profile'')"
  "\<not> is_start_command (Some ''Log Water'')"
  by (simp_all add: is_start_command_def is_space_def)

subsection \<open>Which messages reach the water-amount handler\<close>

text \<open>
  A text that \<^verbatim>\<open>int()\<close> parses starts, after its whitespace, with a sign or a digit, so
  it is not the \<^verbatim>\<open>/start\<close> command, and it is none of the menu texts: in the
  water-amount state the dispatcher hands it to \<^verbatim>\<open>process_log_water\<close>.
\<close>

lemma strip_Cons:
  assumes "dropWhile is_space s = c # cs"
  shows "\<exists>r. strip s = c # r"
proof -
  have c: "\<not> is_space c"
    using assms hd_dropWhile [of is_space s] by fastforce
  have "dropWhile is_space (rev cs @ [c]) = dropWhile is_space (rev cs) @ [c]"
    using c by (simp add: dropWhile_append)
  then have "strip s = c # rev (dropWhile is_space (rev cs))"
    using assms by (simp add: strip_def)
  then show ?thesis by blast
qed

lemma start_command_slash:
  assumes "is_start_command (Some s)"
  shows "\<exists>r. strip s = CHR ''/'' # r"
proof (cases "dropWhile is_space s")
  case Nil
  have "takeWhile (\<lambda>c. \<not> is_space c) (dropWhile is_space s) = ''/start''"
    using assms by (simp add: is_start_command_def)
  then show ?thesis
    unfolding Nil by simp
next
  case (Cons c cs)
  then have "c = CHR ''/''"
    using assms by (simp add: is_start_command_def split: if_splits)
  then show ?thesis
    using strip_Cons [OF Cons] by simp
qed

lemma py_int_not_start_command: "py_int s = Some n \<Longrightarrow> \<not> is_start_command (Some s)"
proof
  assume n: "py_int s = Some n" and "is_start_command (Some s)"
  then obtain r where "strip s = CHR ''/'' # r"
    using start_command_slash by blast
  then have "py_int s = None"
    by (simp add: py_int_def digitpart_def is_digit_def)
  with n show False by simp
qed

lemma py_int_not_menu:
  "py_int ''Set Profile'' = None" "py_int ''Log Water'' = None"
  by code_simp+

lemma dispatch_water_amount:
  assumes "get_state (from_user m) w = Some LogWaterStates_amount"
    and "\<not> is_start_command (msg_text m)"
    and "msg_text m \<noteq> Some ''Set Profile''" and "msg_text m \<noteq> Some ''Log Water''"
  shows "dispatch net m w = process_log_water m w"
  using assms by (simp add: dispatch_def Let_def)

lemma dispatch_water_amount_int:
  assumes "get_state (from_user m) w = Some LogWaterStates_amount"
    and "msg_text m = Some s" and "py_int s = Some n"
  shows "dispatch net m w = process_log_water m w"
proof -
  have "s \<noteq> ''Set Profile''" "s \<noteq> ''Log Water''"
    using assms(3) py_int_not_menu by auto
  then show ?thesis
    using assms py_int_not_start_command [OF assms(3)]
    by (simp add: dispatch_water_amount)
qed

subsection \<open>Logging water\<close>

text \<open>
  Claim C4. A water-amount message of a user who has a profile, with a text that
  \<^verbatim>\<open>int()\<close> parses, is handled by \<^verbatim>\<open>process_log_water\<close>: the amount is added to the
  logged water of the profile, the conversation returns to idle, and the reply is sent
  with the main menu. With
  remaining = max(goal - logged, 0), which is never negative, the reply is the
  goal-reached message exactly when remaining is 0, and otherwise reports the amount
  and remaining.
\<close>

theorem process_log_water_reports_remaining:
  assumes "user_profiles w (from_user m) = Some p"
    and "msg_text m = Some s" and "py_int s = Some amount"
  shows "(get_state (from_user m) w = Some LogWaterStates_amount \<longrightarrow>
            dispatch net m w = process_log_water m w)
     \<and> (\<exists>w' r. process_log_water m w = Inr (w', r, get_main_menu)
     \<and> user_profiles w' (from_user m) = Some (p\<lparr>logged_water := logged_water p + amount\<rparr>)
     \<and> get_state (from_user m) w' = None
     \<and> (let remaining = max (water_goal p - (logged_water p + amount)) 0
        in 0 \<le> remaining
           \<and> (remaining = 0 \<longleftrightarrow> r = Water_goal_reached (logged_water p + amount))
           \<and> (remaining \<noteq> 0 \<longleftrightarrow> r = Logged_water amount remaining)))"
proof (intro conjI impI)
  assume "get_state (from_user m) w = Some LogWaterStates_amount"
  then show "dispatch net m w = process_log_water m w"
    using assms by (simp add: dispatch_water_amount_int)
next
  show "\<exists>w' r. process_log_water m w = Inr (w', r, get_main_menu)
     \<and> user_profiles w' (from_user m) = Some (p\<lparr>logged_water := logged_water p + amount\<rparr>)
     \<and> get_state (from_user m) w' = None
     \<and> (let remaining = max (water_goal p - (logged_water p + amount)) 0
        in 0 \<le> remaining
           \<and> (remaining = 0 \<longleftrightarrow> r = Water_goal_reached (logged_water p + amount))
           \<and> (remaining \<noteq> 0 \<longleftrightarrow> r = Logged_water amount remaining))"
    using assms
    by (simp add: process_log_water_def int_of_text_def Let_def get_state_simps
        user_profiles_simps)
qed

theorem process_log_water_reports_remaining_witness:
  "\<exists>w' r. dispatch offline \<lparr>from_user = 1, msg_text = Some ''3000''\<rparr>
       (run initial [say 1 ''Set Profile'', say 1 ''70'', say 1 ''170'', say 1 ''30'',
          say 1 ''45'', say 1 ''Paris'', say 1 ''Log Water'']) = Inr (w', r, get_main_menu)
     \<and> map_option logged_water (user_profiles w' 1) = Some 3000
     \<and> r = Water_goal_reached 3000"
proof -
  let ?w = "run initial [say 1 ''Set Profile'', say 1 ''70'', say 1 ''170'', say 1 ''30'',
          say 1 ''45'', say 1 ''Paris'', say 1 ''Log Water'']"
  let ?p = "\<lparr>weight = Finite 70, height = Finite 170, age = 30, activity = 45,
      city = Some ''Paris'', temperature = PyFloat (Finite 20),
      water_goal = 2600, calorie_goal = 1812, logged_water = 0,
      logged_calories = Finite 0, burned_calories = Finite 0\<rparr>"
  have p: "user_profiles ?w (from_user \<lparr>from_user = 1, msg_text = Some ''3000''\<rparr>) = Some ?p"
    by code_simp
  have st: "get_state (from_user \<lparr>from_user = 1, msg_text = Some ''3000''\<rparr>) ?w
              = Some LogWaterStates_amount"
    by code_simp
  have t: "msg_text \<lparr>from_user = 1, msg_text = Some ''3000''\<rparr> = Some ''3000''"
    by simp
  have n: "py_int ''3000'' = Some 3000"
    by code_simp
  show ?thesis
    using process_log_water_reports_remaining [OF p t n, of offline] st
    by (auto simp: Let_def)
qed



subsection \<open>Profile setup\<close>




text \<open>
  Claim C8, as stated, fails: the state handlers of the profile setup are registered
  before the "Log Water" handler, so in the height step the text "Log Water" is read
  as a height that does not parse. The conversation stays in the height step and the
  weight collected so far is kept.
\<close>

theorem menu_text_mid_flow_counterexample:
  "get_state 1 (run initial [say 1 ''Set Profile'', say 1 ''70'', say 1 ''Log Water''])
     = Some ProfileStates_height
   \<and> d_weight (get_data 1 (run initial [say 1 ''Set Profile'', say 1 ''70'', say 1 ''Log Water'']))
     = Some (Finite 70)"
  by code_simp

text \<open>
  Claim C8, amended. From every conversation state, and whatever the data collected so
  far, the text "Set Profile" discards the data and restarts the conversation at the
  weight step with the weight prompt; the profile store is not touched.
\<close>

theorem set_profile_restarts:
  assumes "msg_text m = Some ''Set Profile''"
  shows "reply_to w (net, m) = Some (Enter_weight, ReplyKeyboardRemove)
    \<and> get_state (from_user m) (step w (net, m)) = Some ProfileStates_weight
    \<and> get_data (from_user m) (step w (net, m)) = no_data
    \<and> user_profiles (step w (net, m)) = user_profiles w"
  using assms
  by (simp add: reply_to_def step_def dispatch_def cmd_set_profile_def not_start_command
      get_state_simps get_data_simps user_profiles_simps)

theorem set_profile_restarts_witness:
  "msg_text (snd (say 1 ''Set Profile'')) = Some ''Set Profile''
   \<and> get_state 1 (run initial [say 1 ''Set Profile'', say 1 ''70'']) = Some ProfileStates_height
   \<and> get_state 1 (step (run initial [say 1 ''Set Profile'', say 1 ''70'']) (say 1 ''Set Profile''))
       = Some ProfileStates_weight
   \<and> get_data 1 (step (run initial [say 1 ''Set Profile'', say 1 ''70'']) (say 1 ''Set Profile''))
       = no_data"
proof -
  have t: "msg_text \<lparr>from_user = 1, msg_text = Some ''Set Profile''\<rparr> = Some ''Set Profile''"
    by simp
  have s: "get_state 1 (run initial [say 1 ''Set Profile'', say 1 ''70'']) = Some ProfileStates_height"
    by code_simp
  show ?thesis
    using set_profile_restarts [OF t, of "run initial [say 1 ''Set Profile'', say 1 ''70'']" offline] s
    by (simp add: say_def turn_def)
qed

subsection \<open>The city step\<close>

text \<open>
  What the city step does when the collected weight and height are finite: it commits
  a profile with the goals computed from the collected fields, clears the
  conversation and sends the goal summary. The temperature it uses and stores is the
  object the lookup returned if that object is truthy, and 20.0 otherwise; a failed
  lookup returns \<^verbatim>\<open>None\<close>.
\<close>

lemma or_default_simps:
  "truthy x \<Longrightarrow> or_default x d = x"
  "or_default PyNone d = d"
  by (simp_all add: or_default_def)

lemma get_weather_temp_failure:
  "net (weather_url c) = Transport_error \<or> (\<exists>st b. net (weather_url c) = Response st b \<and> (st \<noteq> 200 \<or> b = None))
   \<Longrightarrow> get_weather_temp net c = PyNone"
  by (auto simp: get_weather_temp_def)

lemma process_city_commits:
  assumes d: "d_weight (get_data (from_user m) w) = Some (Finite wt)"
      "d_height (get_data (from_user m) w) = Some (Finite ht)"
      "d_age (get_data (from_user m) w) = Some a"
      "d_activity (get_data (from_user m) w) = Some act"
    and t: "as_float (or_default (get_weather_temp net (msg_text m)) (PyFloat (Finite 20))) = Some t"
  shows "\<exists>wg cg.
     calculate_water_goal (Finite wt) act t = Inr wg
     \<and> calculate_calorie_goal (Finite wt) (Finite ht) a act = Inr cg
     \<and> process_city net m w =
         Inr (state_clear (from_user m)
                (w\<lparr>user_profiles := (user_profiles w)(from_user m \<mapsto>
                     \<lparr>weight = Finite wt, height = Finite ht, age = a, activity = act,
                      city = msg_text m,
                      temperature = or_default (get_weather_temp net (msg_text m)) (PyFloat (Finite 20)),
                      water_goal = wg, calorie_goal = cg,
                      logged_water = 0, logged_calories = Finite 0,
                      burned_calories = Finite 0\<rparr>)\<rparr>),
              Profile_set (Finite wt) (Finite ht) a act (msg_text m)
                (or_default (get_weather_temp net (msg_text m)) (PyFloat (Finite 20))) wg cg,
              get_main_menu)"
  using d t
  by (simp add: process_city_def Let_def calculate_water_goal_def calculate_calorie_goal_def
      float_of_int_def fsub_def)

text \<open>
  Claim C5 does not hold for a lookup that succeeds with a temperature of zero:
  \<^verbatim>\<open>get_weather_temp(city) or 20.0\<close> treats the falsy 0 like the \<^verbatim>\<open>None\<close> of a failed
  lookup. With the weather service answering 0 degrees for Oslo, the lookup returns 0
  and the committed profile stores 20.0.
\<close>

theorem zero_temperature_replaced_by_default:
  "get_weather_temp (serving (PyDict [(''main'', PyDict [(''temp'', PyInt 0)])])) (Some ''Oslo'')
     = PyInt 0
   \<and> map_option temperature
       (user_profiles
          (run initial
             [say 1 ''Set Profile'', say 1 ''70'', say 1 ''170'', say 1 ''30'', say 1 ''45'',
              turn (serving (PyDict [(''main'', PyDict [(''temp'', PyInt 0)])])) 1 ''Oslo''])
          1)
     = Some (PyFloat (Finite 20))"
  by code_simp

section \<open>Properties of the nutrition lookup\<close>



section \<open>Properties of the logs\<close>

subsection \<open>Every handler keeps the invariant on a benign turn\<close>

lemma data_ok_state_clear: "data_ok w \<Longrightarrow> data_ok (state_clear u w)"
  by (simp add: data_ok_def state_clear_def no_data_def)

lemma data_ok_set_state: "data_ok w \<Longrightarrow> data_ok (set_state u s w)"
  by (simp add: data_ok_def set_state_def)

lemma data_ok_update_data:
  "data_ok w \<Longrightarrow> (\<And>d. d_current_food (f d) = d_current_food d) \<Longrightarrow> data_ok (update_data u f w)"
  by (simp add: data_ok_def update_data_def)

lemma data_ok_update_food:
  "data_ok w \<Longrightarrow> kcal_ok fi \<Longrightarrow>
   data_ok (update_data u (\<lambda>d. d\<lparr>d_current_food := Some fi\<rparr>) w)"
  by (simp add: data_ok_def update_data_def)

lemma data_ok_store: "data_ok (w\<lparr>user_profiles := ps\<rparr>) = data_ok w"
  by (simp add: data_ok_def)

lemma store_nonneg_storage:
  "store_nonneg (state_clear u w) = store_nonneg w"
  "store_nonneg (set_state u s w) = store_nonneg w"
  "store_nonneg (update_data u f w) = store_nonneg w"
  by (simp_all add: store_nonneg_def state_clear_def set_state_def update_data_def)

lemma store_nonneg_upd:
  "store_nonneg w \<Longrightarrow> 0 \<le> logged_water p \<Longrightarrow> nonneg (logged_calories p) \<Longrightarrow>
   store_nonneg (w\<lparr>user_profiles := (user_profiles w)(u \<mapsto> p)\<rparr>)"
  by (simp add: store_nonneg_def)

lemmas logs_ok_intros = data_ok_state_clear data_ok_set_state data_ok_update_data
  store_nonneg_upd

lemma logs_ok_simple:
  "logs_ok w \<Longrightarrow> logs_ok (state_clear u w)"
  "logs_ok w \<Longrightarrow> logs_ok (set_state u s w)"
  "logs_ok w \<Longrightarrow> (\<And>d. d_current_food (f d) = d_current_food d) \<Longrightarrow> logs_ok (update_data u f w)"
  by (simp_all add: logs_ok_def store_nonneg_storage logs_ok_intros)

lemma logs_ok_cmd_start: "logs_ok w \<Longrightarrow> cmd_start m w = Inr (w', r) \<Longrightarrow> logs_ok w'"
  by (auto simp: cmd_start_def)

lemma logs_ok_cmd_set_profile: "logs_ok w \<Longrightarrow> cmd_set_profile m w = Inr (w', r) \<Longrightarrow> logs_ok w'"
  by (auto simp: cmd_set_profile_def logs_ok_simple)

lemma logs_ok_process_weight: "logs_ok w \<Longrightarrow> process_weight m w = Inr (w', r) \<Longrightarrow> logs_ok w'"
  by (auto simp: process_weight_def logs_ok_simple split: sum.splits if_splits)

lemma logs_ok_process_height: "logs_ok w \<Longrightarrow> process_height m w = Inr (w', r) \<Longrightarrow> logs_ok w'"
  by (auto simp: process_height_def logs_ok_simple split: sum.splits if_splits)

lemma logs_ok_process_age: "logs_ok w \<Longrightarrow> process_age m w = Inr (w', r) \<Longrightarrow> logs_ok w'"
  by (auto simp: process_age_def logs_ok_simple split: sum.splits if_splits)

lemma logs_ok_process_activity: "logs_ok w \<Longrightarrow> process_activity m w = Inr (w', r) \<Longrightarrow> logs_ok w'"
  by (auto simp: process_activity_def logs_ok_simple split: sum.splits if_splits)

lemma logs_ok_process_city: "logs_ok w \<Longrightarrow> process_city net m w = Inr (w', r) \<Longrightarrow> logs_ok w'"
  by (auto simp: process_city_def Let_def logs_ok_def store_nonneg_storage logs_ok_intros data_ok_store
      split: sum.splits option.splits)

lemma logs_ok_cmd_log_water: "logs_ok w \<Longrightarrow> cmd_log_water m w = Inr (w', r) \<Longrightarrow> logs_ok w'"
  by (auto simp: cmd_log_water_def logs_ok_simple split: option.splits)

lemma nonneg_total:
  "nonneg c \<Longrightarrow> 0 \<le> n \<Longrightarrow> nonneg l \<Longrightarrow> nonneg (fadd l (fmul (fdiv100 c) (float_of_int n)))"
  by (cases c; cases l) (simp_all add: float_of_int_def)

lemma store_nonneg_log_water:
  "store_nonneg w \<Longrightarrow> user_profiles w u = Some p \<Longrightarrow> 0 \<le> n \<Longrightarrow>
   store_nonneg (w\<lparr>user_profiles := (user_profiles w)(u \<mapsto> p\<lparr>logged_water := logged_water p + n\<rparr>)\<rparr>)"
  by (auto simp: store_nonneg_def)

lemma store_nonneg_log_calories:
  "store_nonneg w \<Longrightarrow> user_profiles w u = Some p \<Longrightarrow> nonneg c \<Longrightarrow> 0 \<le> n \<Longrightarrow>
   store_nonneg (w\<lparr>user_profiles := (user_profiles w)(u \<mapsto>
      p\<lparr>logged_calories := fadd (logged_calories p) (fmul (fdiv100 c) (float_of_int n))\<rparr>)\<rparr>)"
  by (auto simp: store_nonneg_def nonneg_total)

lemma store_nonnegD:
  "store_nonneg w \<Longrightarrow> user_profiles w u = Some p \<Longrightarrow>
   0 \<le> logged_water p \<and> nonneg (logged_calories p)"
  by (simp add: store_nonneg_def)

lemma logs_ok_process_log_water:
  "logs_ok w \<Longrightarrow> (case int_of_text (msg_text m) of Inl e \<Rightarrow> True | Inr n \<Rightarrow> 0 \<le> n) \<Longrightarrow>
   process_log_water m w = Inr (w', r) \<Longrightarrow> logs_ok w'"
  by (auto simp: process_log_water_def Let_def logs_ok_def store_nonneg_storage logs_ok_intros
      data_ok_store store_nonneg_log_water
      split: sum.splits option.splits if_splits)

lemma logs_ok_cmd_log_food: "logs_ok w \<Longrightarrow> cmd_log_food m w = Inr (w', r) \<Longrightarrow> logs_ok w'"
  by (auto simp: cmd_log_food_def logs_ok_simple split: option.splits)

lemma logs_ok_process_log_food_name:
  "logs_ok w \<Longrightarrow> (case get_food_info net (msg_text m) of None \<Rightarrow> True | Some fi \<Rightarrow> kcal_ok fi) \<Longrightarrow>
   process_log_food_name net m w = Inr (w', r) \<Longrightarrow> logs_ok w'"
  by (auto simp: process_log_food_name_def logs_ok_def store_nonneg_storage data_ok_update_food
      data_ok_set_state split: option.splits)

lemma logs_ok_process_log_food_amount:
  assumes "logs_ok w" and "case int_of_text (msg_text m) of Inl e \<Rightarrow> True | Inr n \<Rightarrow> 0 \<le> n"
    and "process_log_food_amount m w = Inr (w', r)"
  shows "logs_ok w'"
proof (cases "int_of_text (msg_text m)")
  case (Inl e)
  then show ?thesis
    using assms by (auto simp: process_log_food_amount_def split: if_splits)
next
  case (Inr n)
  then have n: "0 \<le> n" using assms(2) by simp
  show ?thesis
  proof (cases "d_current_food (get_data (from_user m) w)")
    case None
    then show ?thesis
      using assms Inr by (auto simp: process_log_food_amount_def logs_ok_simple)
  next
    case (Some fi)
    then have ok: "kcal_ok fi"
      using assms(1) by (simp add: logs_ok_def data_ok_def get_data_def)
    show ?thesis
      using assms(1,3) Inr Some ok n
      by (auto simp: process_log_food_amount_def Let_def kcal_ok_def logs_ok_def
          store_nonneg_storage data_ok_store data_ok_state_clear store_nonneg_log_calories
          split: option.splits)
  qed
qed

lemma logs_ok_cmd_check_progress: "logs_ok w \<Longrightarrow> cmd_check_progress m w = Inr (w', r) \<Longrightarrow> logs_ok w'"
  by (auto simp: cmd_check_progress_def split: option.splits)

lemma logs_ok_cmd_check_food_info: "logs_ok w \<Longrightarrow> cmd_check_food_info m w = Inr (w', r) \<Longrightarrow> logs_ok w'"
  by (auto simp: cmd_check_food_info_def logs_ok_simple)

lemma logs_ok_process_food_info: "logs_ok w \<Longrightarrow> process_food_info net m w = Inr (w', r) \<Longrightarrow> logs_ok w'"
  by (auto simp: process_food_info_def logs_ok_simple split: option.splits)

lemma logs_ok_fallback_handler: "logs_ok w \<Longrightarrow> fallback_handler m w = Inr (w', r) \<Longrightarrow> logs_ok w'"
  by (auto simp: fallback_handler_def)

lemmas logs_ok_handlers = logs_ok_cmd_start logs_ok_cmd_set_profile logs_ok_process_weight logs_ok_process_height
  logs_ok_process_age logs_ok_process_activity logs_ok_process_city logs_ok_cmd_log_water
  logs_ok_cmd_log_food logs_ok_cmd_check_progress logs_ok_cmd_check_food_info logs_ok_process_food_info
  logs_ok_fallback_handler

lemma logs_ok_dispatch:
  assumes "logs_ok w" and "benign w (net, m)" and "dispatch net m w = Inr (w', r)"
  shows "logs_ok w'"
proof -
  consider (water) "get_state (from_user m) w = Some LogWaterStates_amount"
    | (amount) "get_state (from_user m) w = Some LogFoodStates_food_amount"
    | (food) "get_state (from_user m) w = Some LogFoodStates_food_name"
    | (other) "get_state (from_user m) w \<noteq> Some LogWaterStates_amount"
        "get_state (from_user m) w \<noteq> Some LogFoodStates_food_amount"
        "get_state (from_user m) w \<noteq> Some LogFoodStates_food_name"
    by blast
  then show ?thesis
  proof cases
    case water
    then show ?thesis
      using assms
      by (auto simp: dispatch_def benign_def Let_def split: if_splits
          intro: logs_ok_handlers logs_ok_process_log_water)
  next
    case amount
    then show ?thesis
      using assms
      by (auto simp: dispatch_def benign_def Let_def split: if_splits
          intro: logs_ok_handlers logs_ok_process_log_food_amount)
  next
    case food
    then show ?thesis
      using assms
      by (auto simp: dispatch_def benign_def Let_def split: if_splits
          intro: logs_ok_handlers logs_ok_process_log_food_name)
  next
    case other
    then show ?thesis
      using assms
      by (auto simp: dispatch_def Let_def split: if_splits intro: logs_ok_handlers)
  qed
qed

lemma logs_ok_step: "logs_ok w \<Longrightarrow> benign w ev \<Longrightarrow> logs_ok (step w ev)"
  by (cases ev) (auto simp: step_def split: sum.splits dest: logs_ok_dispatch)

lemma logs_ok_run: "logs_ok w \<Longrightarrow> benign_run w evs \<Longrightarrow> logs_ok (run w evs)"
  by (induction evs arbitrary: w) (simp_all add: run_def logs_ok_step)

lemma logs_ok_initial: "logs_ok initial"
  by (simp add: logs_ok_def store_nonneg_def data_ok_def initial_def no_data_def)

text \<open>
  Claim C7, as stated, fails: the water-amount step accepts every integer that \<^verbatim>\<open>int()\<close>
  parses. After a profile is set up, "Log Water" followed by -5 leaves the logged water
  of the profile at -5: a reachable store state that breaks the invariant.
\<close>

theorem negative_water_logged_counterexample:
  "map_option logged_water
     (user_profiles
        (run initial
           [say 1 ''Set Profile'', say 1 ''70'', say 1 ''170'', say 1 ''30'', say 1 ''45'',
            say 1 ''Paris'', say 1 ''Log Water'', say 1 ''-5''])
        1)
     = Some (- 5)
   \<and> \<not> store_nonneg
        (run initial
           [say 1 ''Set Profile'', say 1 ''70'', say 1 ''170'', say 1 ''30'', say 1 ''45'',
            say 1 ''Paris'', say 1 ''Log Water'', say 1 ''-5''])"
proof -
  let ?w = "run initial
           [say 1 ''Set Profile'', say 1 ''70'', say 1 ''170'', say 1 ''30'', say 1 ''45'',
            say 1 ''Paris'', say 1 ''Log Water'', say 1 ''-5'']"
  have p: "user_profiles ?w 1 =
             Some \<lparr>weight = Finite 70, height = Finite 170, age = 30, activity = 45,
                   city = Some ''Paris'', temperature = PyFloat (Finite 20),
                   water_goal = 2600, calorie_goal = 1812, logged_water = - 5,
                   logged_calories = Finite 0, burned_calories = Finite 0\<rparr>"
    by code_simp
  have "\<not> store_nonneg ?w"
  proof
    assume "store_nonneg ?w"
    from store_nonnegD [OF this p] show False
      by simp
  qed
  with p show ?thesis
    by simp
qed

text \<open>
  Claim C7, amended. The water-amount and food-amount steps accept every integer,
  negative ones too. Along every run from the initial state in which each integer
  entered at these two steps is at least 0 and each looked-up calories value is a
  finite number that is at least 0, every profile in the store has logged water and
  logged calories that are at least 0.
\<close>

theorem logged_amounts_nonneg:
  "benign_run initial evs \<Longrightarrow> store_nonneg (run initial evs)"
  using logs_ok_run [OF logs_ok_initial] by (simp add: logs_ok_def)

theorem logged_amounts_nonneg_witness:
  "benign_run initial
     [say 1 ''Set Profile'', say 1 ''70'', say 1 ''170'', say 1 ''30'', say 1 ''45'',
      say 1 ''Paris'', say 1 ''Log Water'', say 1 ''250'', say 1 ''Log Food'',
      turn (serving (PyDict [(''products'',
              PyList [PyDict [(''product_name'', PyStr ''Apple''),
                              (''nutriments'', PyDict [(''energy-kcal_100g'', PyInt 52)])]])]))
        1 ''apple'',
      say 1 ''150'']
   \<and> store_nonneg
       (run initial
          [say 1 ''Set Profile'', say 1 ''70'', say 1 ''170'', say 1 ''30'', say 1 ''45'',
           say 1 ''Paris'', say 1 ''Log Water'', say 1 ''250'', say 1 ''Log Food'',
           turn (serving (PyDict [(''products'',
                   PyList [PyDict [(''product_name'', PyStr ''Apple''),
                                   (''nutriments'', PyDict [(''energy-kcal_100g'', PyInt 52)])]])]))
             1 ''apple'',
           say 1 ''150''])
   \<and> map_option (\<lambda>p. (logged_water p, logged_calories p))
       (user_profiles
          (run initial
             [say 1 ''Set Profile'', say 1 ''70'', say 1 ''170'', say 1 ''30'', say 1 ''45'',
              say 1 ''Paris'', say 1 ''Log Water'', say 1 ''250'', say 1 ''Log Food'',
              turn (serving (PyDict [(''products'',
                      PyList [PyDict [(''product_name'', PyStr ''Apple''),
                                      (''nutriments'', PyDict [(''energy-kcal_100g'', PyInt 52)])]])]))
                1 ''apple'',
              say 1 ''150''])
          1)
     = Some (250, Finite 78)"
proof -
  let ?evs = "[say 1 ''Set Profile'', say 1 ''70'', say 1 ''170'', say 1 ''30'', say 1 ''45'',
      say 1 ''Paris'', say 1 ''Log Water'', say 1 ''250'', say 1 ''Log Food'',
      turn (serving (PyDict [(''products'',
              PyList [PyDict [(''product_name'', PyStr ''Apple''),
                              (''nutriments'', PyDict [(''energy-kcal_100g'', PyInt 52)])]])]))
        1 ''apple'',
      say 1 ''150'']"
  have b: "benign_run initial ?evs"
    by code_simp
  have v: "map_option (\<lambda>p. (logged_water p, logged_calories p))
             (user_profiles (run initial ?evs) 1) = Some (250, Finite 78)"
    by code_simp
  show ?thesis
    using b logged_amounts_nonneg [OF b] v by simp
qed

end
